theory Spec2Isabelle
  imports Complex_Main
begin

section \<open>Sungan River water quality analyzer\<close>

text \<open>
  A shallow embedding of \<^verbatim>\<open>src/sungan/analyzer.py\<close> (class
  \<^verbatim>\<open>SunganRiverWaterQualityAnalyzer\<close>) and of the aggregation loop of
  \<^verbatim>\<open>src/app.py\<close>.

  Numbers: the program computes with Python floats. A distance, a predicted value, a
  Q-value and a WQI score are modelled as \<^typ>\<open>real\<close>, every decimal literal of the source
  as the rational number it denotes, \<^verbatim>\<open>math.log\<close> as \<^const>\<open>ln\<close> and \<^verbatim>\<open>**\<close> on a
  positive base as \<^const>\<open>powr\<close>. Rounding, overflow, infinities and NaN of IEEE doubles are
  not part of the model; the one infinity the source writes down, the upper bound
  \<^verbatim>\<open>float('inf')\<close> of the DO standard, is a constructor of its own.

  Strings: a \<^typ>\<open>string\<close> is a list of bytes, a Python \<^verbatim>\<open>str\<close> is modelled by its UTF-8
  encoding.
\<close>

subsection \<open>Errors\<close>


subsection \<open>Parameter predictors\<close>







text \<open>\<^verbatim>\<open>predict_do\<close> has no guard and no \<^verbatim>\<open>raise\<close>: it returns a number for every distance.\<close>

definition predict_do :: "real \<Rightarrow> real" where
  "predict_do distance =
     (if distance \<le> 3 then 8.00
      else if distance \<le> 5 then 7.45
      else 8.20)"


subsection \<open>Q-values\<close>

text \<open>Python's \<^verbatim>\<open>int(x)\<close> on a float drops the fractional part (rounds toward zero).\<close>

definition py_int :: "real \<Rightarrow> int" where
  "py_int x = (if 0 \<le> x then \<lfloor>x\<rfloor> else \<lceil>x\<rceil>)"

text \<open>
  \<^verbatim>\<open>get_q_value\<close> returns an \<^verbatim>\<open>int\<close> on some branches and a \<^verbatim>\<open>float\<close> on others; the
  caller multiplies the result by a float weight, so the result is a \<^typ>\<open>real\<close> here.
\<close>

definition get_q_value :: "string \<Rightarrow> real \<Rightarrow> real" where
  "get_q_value parameter v =
     (if parameter = ''DO'' then
        (if v \<ge> 7.5 then 90
         else if v \<ge> 7.0 then 85
         else if v \<ge> 6.5 then 80
         else if v \<ge> 6.0 then 75
         else if v \<ge> 5.5 then 70
         else if v \<ge> 5.0 then 65
         else real_of_int (max 0 (py_int (v * 10))))
      else if parameter = ''pH'' then
        (if 7.0 \<le> v \<and> v \<le> 8.0 then 90
         else if (6.5 \<le> v \<and> v < 7.0) \<or> (8.0 < v \<and> v \<le> 8.5) then 80
         else if (6.0 \<le> v \<and> v < 6.5) \<or> (8.5 < v \<and> v \<le> 9.0) then 60
         else if (5.5 \<le> v \<and> v < 6.0) \<or> (9.0 < v \<and> v \<le> 9.5) then 40
         else 20)
      else if parameter = ''nitrate'' then
        (if v \<le> 1.0 then 95
         else if v \<le> 2.0 then 90
         else if v \<le> 5.0 then 80
         else if v \<le> 7.5 then 70
         else if v \<le> 10.0 then 60
         else max 0 (100 - v * 8))
      else if parameter = ''phosphate'' then
        (if v \<le> 0.1 then 95
         else if v \<le> 0.2 then 90
         else if v \<le> 0.4 then 80
         else if v \<le> 0.8 then 60
         else if v \<le> 1.2 then 40
         else if v \<le> 1.6 then 30
         else max 0 (100 - v * 40))
      else if parameter = ''turbidity'' then
        (if v \<le> 1.0 then 95
         else if v \<le> 5.0 then 90
         else if v \<le> 10.0 then 80
         else if v \<le> 20.0 then 70
         else if v \<le> 50.0 then 50
         else if v \<le> 100.0 then 30
         else max 0 (100 - v))
      else if parameter = ''TDS'' then
        (if v \<le> 50 then 95
         else if v \<le> 100 then 85
         else if v \<le> 200 then 75
         else if v \<le> 300 then 65
         else if v \<le> 400 then 50
         else if v \<le> 500 then 35
         else max 0 (100 - v / 10))
      else 50)"

subsection \<open>Constant tables\<close>

text \<open>
  The three dicts of \<^verbatim>\<open>__init__\<close>, as association lists in the order written (Python
  iterates a dict in insertion order).
\<close>

definition weights :: "(string \<times> real) list" where
  "weights =
     [(''DO'', 0.27), (''pH'', 0.175), (''nitrate'', 0.159), (''phosphate'', 0.159),
      (''turbidity'', 0.127), (''TDS'', 0.111)]"

text \<open>The upper bound of a standard is a float, and for DO it is \<^verbatim>\<open>float('inf')\<close>.\<close>

datatype bound = Upto real | NoMax

fun le_bound :: "real \<Rightarrow> bound \<Rightarrow> bool" where
  "le_bound v (Upto m) = (v \<le> m)"
| "le_bound v NoMax = True"

definition standards :: "(string \<times> real \<times> bound) list" where
  "standards =
     [(''pH'', (6.5, Upto 8.5)),
      (''DO'', (5.0, NoMax)),
      (''turbidity'', (0, Upto 5)),
      (''TDS'', (0, Upto 100)),
      (''iron'', (0, Upto 0.3)),
      (''phosphate'', (0, Upto 0.4)),
      (''nitrate'', (0, Upto 10))]"

definition wqi_rating :: "((int \<times> int) \<times> string) list" where
  "wqi_rating =
     [((91, 100), ''Excellent Quality''),
      ((71, 90), ''Good Quality''),
      ((51, 70), ''Moderate Quality''),
      ((26, 50), ''Poor Quality''),
      ((0, 25), ''Very Poor Quality'')]"

subsection \<open>Rating\<close>

text \<open>
  The loop of \<^verbatim>\<open>get_wqi_rating\<close> over the items of a rating table: the first interval that
  holds the score decides; after the loop, \<^verbatim>\<open>"Undefined"\<close>.
\<close>

fun rating_scan :: "((int \<times> int) \<times> string) list \<Rightarrow> real \<Rightarrow> string" where
  "rating_scan [] wqi_score = ''Undefined''"
| "rating_scan (((min_score, max_score), rating) # rest) wqi_score =
     (if real_of_int min_score \<le> wqi_score \<and> wqi_score \<le> real_of_int max_score then rating
      else rating_scan rest wqi_score)"

definition get_wqi_rating :: "real \<Rightarrow> string" where
  "get_wqi_rating wqi_score = rating_scan wqi_rating wqi_score"

subsection \<open>Standards\<close>

text \<open>The two glyphs of the source, U+2713 and U+2717, in UTF-8.\<close>

definition check_mark :: string where
  "check_mark = [CHR 0xE2, CHR 0x9C, CHR 0x93]"

definition ballot_x :: string where
  "ballot_x = [CHR 0xE2, CHR 0x9C, CHR 0x97]"

definition assess_parameter_quality :: "string \<Rightarrow> real \<Rightarrow> string \<times> string" where
  "assess_parameter_quality parameter v =
     (case map_of standards parameter of
        Some (min_std, max_std) \<Rightarrow>
          (if min_std \<le> v \<and> le_bound v max_std then (''Within Standard'', check_mark)
           else (''Exceeds Standard'', ballot_x))
      | None \<Rightarrow> (''No Standard'', ''-''))"

subsection \<open>Aggregation\<close>


fun weighted_total :: "(string \<Rightarrow> real) \<Rightarrow> (string \<times> real) list \<Rightarrow> real \<Rightarrow> real" where
  "weighted_total q [] acc = acc"
| "weighted_total q ((p, w) # rest) acc = weighted_total q rest (acc + q p * w)"


subsection \<open>The Q-value table as the specification words it\<close>






subsection \<open>Rating bands\<close>

text \<open>The test of the loop of \<^verbatim>\<open>get_wqi_rating\<close> on one key \<open>(min_score, max_score)\<close>.\<close>

definition in_band :: "int \<times> int \<Rightarrow> real \<Rightarrow> bool" where
  "in_band b s = (real_of_int (fst b) \<le> s \<and> s \<le> real_of_int (snd b))"

section \<open>Verified properties\<close>

subsection \<open>Weights and aggregation\<close>


lemma tds_never_90: "get_q_value ''TDS'' v \<noteq> 90"
  by (simp add: get_q_value_def max_def)

text \<open>
  Claim C1, as stated: the six aggregation weights sum exactly to 1.0, so that six scores
  of 90 aggregate to exactly 90.0. The sum of the six weights of the source is not 1.
\<close>

theorem weights_sum_not_one: "sum_list (map snd weights) \<noteq> 1"
  by (simp add: weights_def)

text \<open>
  Claim C1, amended: the six weights (DO 0.27, pH 0.175, nitrate 0.159, phosphate 0.159,
  turbidity 0.127, TDS 0.111) sum to 1.001, so the loop turns six equal scores \<open>c\<close> into
  \<open>1.001 \<times> c\<close>, and six scores of 90 into 90.09. With the scorer of the source no
  predictions reach that case: the TDS score is never 90.
\<close>

theorem weights_sum:
  "sum_list (map snd weights) = 1.001 \<and>
   weighted_total (\<lambda>p. c) weights 0 = 1.001 * c \<and>
   weighted_total (\<lambda>p. 90) weights 0 = 90.09 \<and>
   (\<forall>v. get_q_value ''TDS'' v \<noteq> 90)"
  by (simp add: weights_def tds_never_90)


subsection \<open>Predictions\<close>







subsection \<open>Dissolved oxygen\<close>

text \<open>
  Claim C7. The dissolved-oxygen predictor is a three-piece step function: 8.00 for
  \<open>d \<le> 3\<close>, 7.45 for \<open>3 < d \<le> 5\<close> and 8.20 for \<open>d > 5\<close>. It returns a value (8.00) at
  distance 0, where the regression predictors raise, and
  predict(2) = 8.00, predict(3) = 8.00, predict(4) = 7.45, predict(5) = 7.45,
  predict(6) = 8.20.
\<close>

theorem predict_do_step:
  "(d \<le> 3 \<longrightarrow> predict_do d = 8.00) \<and>
   (3 < d \<and> d \<le> 5 \<longrightarrow> predict_do d = 7.45) \<and>
   (5 < d \<longrightarrow> predict_do d = 8.20) \<and>
   predict_do 0 = 8.00 \<and>
   predict_do 2 = 8.00 \<and> predict_do 3 = 8.00 \<and> predict_do 4 = 7.45 \<and>
   predict_do 5 = 7.45 \<and> predict_do 6 = 8.20"
  by (simp add: predict_do_def)

theorem predict_do_step_witness:
  "(3::real) \<le> 3 \<and> predict_do 3 = 8.00 \<and>
   (3::real) < 4 \<and> (4::real) \<le> 5 \<and> predict_do 4 = 7.45 \<and>
   (5::real) < 6 \<and> predict_do 6 = 8.20"
  using predict_do_step [of 3] predict_do_step [of 4] predict_do_step [of 6]
  by simp

subsection \<open>Q-values\<close>




subsection \<open>Rating\<close>

lemma get_wqi_rating_unfold:
  "get_wqi_rating s =
     (if 91 \<le> s \<and> s \<le> 100 then ''Excellent Quality''
      else if 71 \<le> s \<and> s \<le> 90 then ''Good Quality''
      else if 51 \<le> s \<and> s \<le> 70 then ''Moderate Quality''
      else if 26 \<le> s \<and> s \<le> 50 then ''Poor Quality''
      else if 0 \<le> s \<and> s \<le> 25 then ''Very Poor Quality''
      else ''Undefined'')"
  by (simp add: get_wqi_rating_def wqi_rating_def)

text \<open>
  Claim C5. \<open>get_wqi_rating\<close> returns the band whose interval holds the score, both ends
  included: [91,100] Excellent, [71,90] Good, [51,70] Moderate, [26,50] Poor, [0,25] Very
  Poor. For a score in none of the five intervals, such as 25.5, a negative score or a
  score above 100, it returns \<^verbatim>\<open>"Undefined"\<close>; it never raises.
\<close>

theorem get_wqi_rating_bands:
  "(91 \<le> s \<and> s \<le> 100 \<longrightarrow> get_wqi_rating s = ''Excellent Quality'') \<and>
   (71 \<le> s \<and> s \<le> 90 \<longrightarrow> get_wqi_rating s = ''Good Quality'') \<and>
   (51 \<le> s \<and> s \<le> 70 \<longrightarrow> get_wqi_rating s = ''Moderate Quality'') \<and>
   (26 \<le> s \<and> s \<le> 50 \<longrightarrow> get_wqi_rating s = ''Poor Quality'') \<and>
   (0 \<le> s \<and> s \<le> 25 \<longrightarrow> get_wqi_rating s = ''Very Poor Quality'') \<and>
   (\<not> (91 \<le> s \<and> s \<le> 100) \<and> \<not> (71 \<le> s \<and> s \<le> 90) \<and> \<not> (51 \<le> s \<and> s \<le> 70) \<and>
    \<not> (26 \<le> s \<and> s \<le> 50) \<and> \<not> (0 \<le> s \<and> s \<le> 25) \<longrightarrow> get_wqi_rating s = ''Undefined'') \<and>
   (s < 0 \<or> 100 < s \<longrightarrow> get_wqi_rating s = ''Undefined'') \<and>
   get_wqi_rating 25.5 = ''Undefined''"
  by (simp add: get_wqi_rating_unfold)

theorem get_wqi_rating_bands_witness:
  "(91 \<le> (100::real) \<and> (100::real) \<le> 100) \<and> get_wqi_rating 100 = ''Excellent Quality'' \<and>
   (71 \<le> (71::real) \<and> (71::real) \<le> 90) \<and> get_wqi_rating 71 = ''Good Quality'' \<and>
   (51 \<le> (60::real) \<and> (60::real) \<le> 70) \<and> get_wqi_rating 60 = ''Moderate Quality'' \<and>
   (26 \<le> (50::real) \<and> (50::real) \<le> 50) \<and> get_wqi_rating 50 = ''Poor Quality'' \<and>
   (0 \<le> (0::real) \<and> (0::real) \<le> 25) \<and> get_wqi_rating 0 = ''Very Poor Quality'' \<and>
   (- 1 < (0::real)) \<and> get_wqi_rating (- 1) = ''Undefined'' \<and>
   ((100::real) < 101) \<and> get_wqi_rating 101 = ''Undefined'' \<and>
   \<not> (51 \<le> (50.5::real) \<and> (50.5::real) \<le> 70) \<and> \<not> (26 \<le> (50.5::real) \<and> (50.5::real) \<le> 50) \<and>
   get_wqi_rating 50.5 = ''Undefined''"
  using get_wqi_rating_bands [of 100] get_wqi_rating_bands [of 71] get_wqi_rating_bands [of 60]
    get_wqi_rating_bands [of 50] get_wqi_rating_bands [of 0] get_wqi_rating_bands [of "- 1"]
    get_wqi_rating_bands [of 101] get_wqi_rating_bands [of "50.5"]
  by simp

lemma band_of_score:
  assumes "e \<in> set wqi_rating" and "in_band (fst e) s"
  shows "e = (if 91 \<le> s then ((91, 100), ''Excellent Quality'')
              else if 71 \<le> s then ((71, 90), ''Good Quality'')
              else if 51 \<le> s then ((51, 70), ''Moderate Quality'')
              else if 26 \<le> s then ((26, 50), ''Poor Quality'')
              else ((0, 25), ''Very Poor Quality''))"
proof -
  from assms(1) consider
      "e = ((91, 100), ''Excellent Quality'')" | "e = ((71, 90), ''Good Quality'')"
    | "e = ((51, 70), ''Moderate Quality'')" | "e = ((26, 50), ''Poor Quality'')"
    | "e = ((0, 25), ''Very Poor Quality'')"
    unfolding wqi_rating_def by fastforce
  then show ?thesis
  proof cases
    case 1 with assms(2) show ?thesis by (simp add: in_band_def)
  next
    case 2 with assms(2) show ?thesis by (simp add: in_band_def)
  next
    case 3 with assms(2) show ?thesis by (simp add: in_band_def)
  next
    case 4 with assms(2) show ?thesis by (simp add: in_band_def)
  next
    case 5 with assms(2) show ?thesis by (simp add: in_band_def)
  qed
qed

lemma bands_disjoint:
  "e1 \<in> set wqi_rating \<Longrightarrow> in_band (fst e1) s \<Longrightarrow>
   e2 \<in> set wqi_rating \<Longrightarrow> in_band (fst e2) s \<Longrightarrow> e1 = e2"
  using band_of_score [of e1 s] band_of_score [of e2 s] by (simp only:)

lemma rating_scan_Cons:
  "rating_scan (((lo, hi), r) # rest) s = (if in_band (lo, hi) s then r else rating_scan rest s)"
  by (simp add: in_band_def)

lemma rating_scan_none:
  "\<forall>e\<in>set t. \<not> in_band (fst e) s \<Longrightarrow> rating_scan t s = ''Undefined''"
proof (induction t)
  case Nil
  show ?case by simp
next
  case (Cons a t)
  obtain lo hi r where a: "a = ((lo, hi), r)" by (cases a) auto
  from Cons.prems have "\<not> in_band (lo, hi) s" and "\<forall>e\<in>set t. \<not> in_band (fst e) s"
    by (simp_all add: a)
  with Cons.IH show ?case by (simp add: a rating_scan_Cons del: rating_scan.simps)
qed

lemma rating_scan_unique:
  "e \<in> set t \<Longrightarrow> in_band (fst e) s \<Longrightarrow>
   \<forall>e'\<in>set t. in_band (fst e') s \<longrightarrow> snd e' = snd e \<Longrightarrow> rating_scan t s = snd e"
proof (induction t)
  case Nil
  then show ?case by simp
next
  case (Cons a t)
  obtain lo hi r where a: "a = ((lo, hi), r)" by (cases a) auto
  show ?case
  proof (cases "in_band (lo, hi) s")
    case True
    with Cons.prems(3) have "r = snd e" by (simp add: a)
    with True show ?thesis by (simp add: a rating_scan_Cons del: rating_scan.simps)
  next
    case False
    with Cons.prems(1,2) have "e \<in> set t" by (auto simp: a)
    moreover from Cons.prems(3) have "\<forall>e'\<in>set t. in_band (fst e') s \<longrightarrow> snd e' = snd e" by simp
    ultimately have "rating_scan t s = snd e" using Cons.IH Cons.prems(2) by blast
    with False show ?thesis by (simp add: a rating_scan_Cons del: rating_scan.simps)
  qed
qed

text \<open>
  Claim C10. The five rating intervals [91,100], [71,90], [51,70], [26,50] and [0,25] are
  pairwise disjoint: at most one entry of the table holds a given score. So the lookup does
  not depend on the order in which the entries are scanned: the scan of any table with the
  same entries, in any order, returns what \<open>get_wqi_rating\<close> returns.
\<close>

theorem rating_order_independent:
  "(\<forall>e1\<in>set wqi_rating. \<forall>e2\<in>set wqi_rating.
      in_band (fst e1) s \<and> in_band (fst e2) s \<longrightarrow> e1 = e2) \<and>
   (set table = set wqi_rating \<longrightarrow> rating_scan table s = get_wqi_rating s)"
proof (intro conjI impI ballI)
  fix e1 e2
  assume "e1 \<in> set wqi_rating" "e2 \<in> set wqi_rating" "in_band (fst e1) s \<and> in_band (fst e2) s"
  then show "e1 = e2" using bands_disjoint [of e1 s e2] by simp
next
  assume eq: "set table = set wqi_rating"
  show "rating_scan table s = get_wqi_rating s"
  proof (cases "\<exists>e\<in>set wqi_rating. in_band (fst e) s")
    case True
    then obtain e where e: "e \<in> set wqi_rating" "in_band (fst e) s" ..
    have uniq: "\<forall>e'\<in>set wqi_rating. in_band (fst e') s \<longrightarrow> snd e' = snd e"
    proof (intro ballI impI)
      fix e' assume "e' \<in> set wqi_rating" "in_band (fst e') s"
      then have "e' = e" using e by (rule bands_disjoint)
      then show "snd e' = snd e" by simp
    qed
    have "rating_scan wqi_rating s = snd e"
      using e uniq by (rule rating_scan_unique)
    moreover have "rating_scan table s = snd e"
      using e uniq unfolding eq [symmetric] by (rule rating_scan_unique)
    ultimately show ?thesis by (simp add: get_wqi_rating_def)
  next
    case False
    then have none: "\<forall>e\<in>set wqi_rating. \<not> in_band (fst e) s" by (simp only: bex_simps)
    then have "rating_scan wqi_rating s = ''Undefined''" by (rule rating_scan_none)
    moreover from none have "rating_scan table s = ''Undefined''"
      unfolding eq [symmetric] by (rule rating_scan_none)
    ultimately show ?thesis by (simp add: get_wqi_rating_def)
  qed
qed

theorem rating_order_independent_witness:
  "((91, 100), ''Excellent Quality'') \<in> set wqi_rating \<and>
   ((71, 90), ''Good Quality'') \<in> set wqi_rating \<and>
   in_band (71, 90) 80 \<and> \<not> in_band (91, 100) 80 \<and>
   set (rev wqi_rating) = set wqi_rating \<and>
   rating_scan (rev wqi_rating) 80 = get_wqi_rating 80 \<and>
   rating_scan (rev wqi_rating) 80 = ''Good Quality''"
proof -
  have "set (rev wqi_rating) = set wqi_rating" by simp
  then have "rating_scan (rev wqi_rating) 80 = get_wqi_rating 80"
    using rating_order_independent [of 80 "rev wqi_rating"] by simp
  moreover have "get_wqi_rating 80 = ''Good Quality''"
    by (simp add: get_wqi_rating_def wqi_rating_def)
  moreover have "((91, 100), ''Excellent Quality'') \<in> set wqi_rating"
    "((71, 90), ''Good Quality'') \<in> set wqi_rating"
    by (simp_all add: wqi_rating_def)
  moreover have "in_band (71, 90) 80" "\<not> in_band (91, 100) 80"
    by (simp_all add: in_band_def)
  ultimately show ?thesis by simp
qed

subsection \<open>Standards\<close>

lemma standards_keys:
  "(map_of standards p = None) =
     (p \<notin> {''pH'', ''DO'', ''turbidity'', ''TDS'', ''iron'', ''phosphate'', ''nitrate''})"
  by (simp add: standards_def)

text \<open>
  Claim C9. \<open>assess_parameter_quality\<close> returns a pair for every parameter name and real
  value and never raises. A name with no entry in the standards table, that is any name
  other than the seven parameters, gives ("No Standard", "-"). A name with an entry
  \<open>(min, max)\<close> gives ("Within Standard", check mark) if \<open>min \<le> value \<le> max\<close> and
  ("Exceeds Standard", ballot x) otherwise; the bounds are [6.5, 8.5] for pH, at least 5
  for DO, [0, 5] for turbidity, [0, 100] for TDS, [0, 0.3] for iron, [0, 0.4] for phosphate
  and [0, 10] for nitrate. In particular turbidity 3 is within and turbidity 7 exceeds the
  standard, and iron is assessed for every value.
\<close>

theorem assess_cases:
  "(map_of standards p = None \<longrightarrow> assess_parameter_quality p v = (''No Standard'', ''-'')) \<and>
   (p \<notin> {''pH'', ''DO'', ''turbidity'', ''TDS'', ''iron'', ''phosphate'', ''nitrate''} \<longrightarrow>
      assess_parameter_quality p v = (''No Standard'', ''-'')) \<and>
   (\<forall>lo hi. map_of standards p = Some (lo, hi) \<longrightarrow>
      assess_parameter_quality p v =
        (if lo \<le> v \<and> le_bound v hi then (''Within Standard'', check_mark)
         else (''Exceeds Standard'', ballot_x))) \<and>
   assess_parameter_quality ''pH'' v =
     (if 6.5 \<le> v \<and> v \<le> 8.5 then (''Within Standard'', check_mark)
      else (''Exceeds Standard'', ballot_x)) \<and>
   assess_parameter_quality ''DO'' v =
     (if 5 \<le> v then (''Within Standard'', check_mark) else (''Exceeds Standard'', ballot_x)) \<and>
   assess_parameter_quality ''turbidity'' v =
     (if 0 \<le> v \<and> v \<le> 5 then (''Within Standard'', check_mark)
      else (''Exceeds Standard'', ballot_x)) \<and>
   assess_parameter_quality ''TDS'' v =
     (if 0 \<le> v \<and> v \<le> 100 then (''Within Standard'', check_mark)
      else (''Exceeds Standard'', ballot_x)) \<and>
   assess_parameter_quality ''iron'' v =
     (if 0 \<le> v \<and> v \<le> 0.3 then (''Within Standard'', check_mark)
      else (''Exceeds Standard'', ballot_x)) \<and>
   assess_parameter_quality ''phosphate'' v =
     (if 0 \<le> v \<and> v \<le> 0.4 then (''Within Standard'', check_mark)
      else (''Exceeds Standard'', ballot_x)) \<and>
   assess_parameter_quality ''nitrate'' v =
     (if 0 \<le> v \<and> v \<le> 10 then (''Within Standard'', check_mark)
      else (''Exceeds Standard'', ballot_x)) \<and>
   assess_parameter_quality ''turbidity'' 3 = (''Within Standard'', check_mark) \<and>
   assess_parameter_quality ''turbidity'' 7 = (''Exceeds Standard'', ballot_x)"
proof -
  have gen: "(map_of standards p = None \<longrightarrow>
      assess_parameter_quality p v = (''No Standard'', ''-'')) \<and>
   (\<forall>lo hi. map_of standards p = Some (lo, hi) \<longrightarrow>
      assess_parameter_quality p v =
        (if lo \<le> v \<and> le_bound v hi then (''Within Standard'', check_mark)
         else (''Exceeds Standard'', ballot_x)))"
    by (simp add: assess_parameter_quality_def)
  have unk: "p \<notin> {''pH'', ''DO'', ''turbidity'', ''TDS'', ''iron'', ''phosphate'', ''nitrate''} \<longrightarrow>
      assess_parameter_quality p v = (''No Standard'', ''-'')"
  proof
    assume "p \<notin> {''pH'', ''DO'', ''turbidity'', ''TDS'', ''iron'', ''phosphate'', ''nitrate''}"
    then have "map_of standards p = None" by (simp add: standards_keys)
    with gen show "assess_parameter_quality p v = (''No Standard'', ''-'')" by simp
  qed
  have each:
   "assess_parameter_quality ''pH'' x =
     (if 6.5 \<le> x \<and> x \<le> 8.5 then (''Within Standard'', check_mark)
      else (''Exceeds Standard'', ballot_x))"
   "assess_parameter_quality ''DO'' x =
     (if 5 \<le> x then (''Within Standard'', check_mark) else (''Exceeds Standard'', ballot_x))"
   "assess_parameter_quality ''turbidity'' x =
     (if 0 \<le> x \<and> x \<le> 5 then (''Within Standard'', check_mark)
      else (''Exceeds Standard'', ballot_x))"
   "assess_parameter_quality ''TDS'' x =
     (if 0 \<le> x \<and> x \<le> 100 then (''Within Standard'', check_mark)
      else (''Exceeds Standard'', ballot_x))"
   "assess_parameter_quality ''iron'' x =
     (if 0 \<le> x \<and> x \<le> 0.3 then (''Within Standard'', check_mark)
      else (''Exceeds Standard'', ballot_x))"
   "assess_parameter_quality ''phosphate'' x =
     (if 0 \<le> x \<and> x \<le> 0.4 then (''Within Standard'', check_mark)
      else (''Exceeds Standard'', ballot_x))"
   "assess_parameter_quality ''nitrate'' x =
     (if 0 \<le> x \<and> x \<le> 10 then (''Within Standard'', check_mark)
      else (''Exceeds Standard'', ballot_x))" for x
    by (simp_all add: assess_parameter_quality_def standards_def)
  have ex: "assess_parameter_quality ''turbidity'' 3 = (''Within Standard'', check_mark)"
   "assess_parameter_quality ''turbidity'' 7 = (''Exceeds Standard'', ballot_x)"
    by (simp_all add: each)
  note g1 = conjunct1 [OF gen] and g2 = conjunct2 [OF gen]
  show ?thesis
    by (intro conjI) (rule g1 g2 unk each ex)+
qed

theorem assess_cases_witness:
  "map_of standards ''lead'' = None \<and>
   ''lead'' \<notin> {''pH'', ''DO'', ''turbidity'', ''TDS'', ''iron'', ''phosphate'', ''nitrate''} \<and>
   assess_parameter_quality ''lead'' 1 = (''No Standard'', ''-'') \<and>
   map_of standards ''DO'' = Some (5, NoMax) \<and>
   assess_parameter_quality ''DO'' 1000000 = (''Within Standard'', check_mark) \<and>
   map_of standards ''iron'' = Some (0, Upto 0.3) \<and>
   assess_parameter_quality ''iron'' (- 2) = (''Exceeds Standard'', ballot_x)"
proof -
  have a: "map_of standards ''lead'' = None" "map_of standards ''DO'' = Some (5, NoMax)"
    "map_of standards ''iron'' = Some (0, Upto 0.3)"
    by (simp_all add: standards_def)
  show ?thesis
    using a assess_cases [of "''lead''" 1] assess_cases [of "''DO''" 1000000]
      assess_cases [of "''iron''" "- 2"]
    by simp
qed

end
